theory Spec2Isabelle
  imports Complex_Main "HOL-Library.AList"
begin


section \<open>Python values\<close>

text \<open>
  The payloads handled by \<^verbatim>\<open>parser.py\<close> are decoded JSON: \<^verbatim>\<open>None\<close>, booleans,
  integers, floats, strings, lists and dictionaries with string keys.  The mutation layer
  additionally puts \<^verbatim>\<open>datetime\<close> and \<^verbatim>\<open>UUID\<close> objects into its dictionaries.  Floats are idealised
  as reals (no rounding, no infinities, no NaN); a \<^verbatim>\<open>datetime\<close> is an opaque instant.
  A dictionary is an association list read with \<open>map_of\<close>.
\<close>

datatype datetime = Datetime int

datatype uuid = UUID nat

datatype pyval =
    PNone
  | PBool bool
  | PInt int
  | PFloat real
  | PStr string
  | PList "pyval list"
  | PDict "(string \<times> pyval) list"
  | PDatetime datetime
  | PUUID uuid

type_synonym pydict = "(string \<times> pyval) list"

datatype error =
    ValueError string
  | TypeError
  | KeyError string
  | StatementError string
  | MultipleResultsFound
  | OperationalError

text \<open>
  Library functions of Python whose results on text are not part of this repository:
  \<^verbatim>\<open>int(str)\<close>, \<^verbatim>\<open>float(str)\<close> (\<open>None\<close> stands for their \<^verbatim>\<open>ValueError\<close>),
  \<^verbatim>\<open>str(x)\<close> on a value that is not a string, \<^verbatim>\<open>dict(x)\<close> on a value that is not a
  dictionary, \<^verbatim>\<open>datetime.fromisoformat\<close> and \<^verbatim>\<open>datetime.isoformat\<close>.
\<close>

record builtins =
  int_of_str :: "string \<Rightarrow> int option"
  float_of_str :: "string \<Rightarrow> real option"
  repr :: "pyval \<Rightarrow> string"
  dict_of_other :: "pyval \<Rightarrow> error + pydict"
  fromisoformat :: "string \<Rightarrow> datetime option"
  isoformat :: "datetime \<Rightarrow> string"

text \<open>Truthiness, as tested by \<^verbatim>\<open>if x\<close> and \<^verbatim>\<open>not x\<close>.\<close>

fun truthy :: "pyval \<Rightarrow> bool" where
  "truthy PNone = False"
| "truthy (PBool b) = b"
| "truthy (PInt n) = (n \<noteq> 0)"
| "truthy (PFloat r) = (r \<noteq> 0)"
| "truthy (PStr s) = (s \<noteq> [])"
| "truthy (PList xs) = (xs \<noteq> [])"
| "truthy (PDict kvs) = (kvs \<noteq> [])"
| "truthy (PDatetime d) = True"
| "truthy (PUUID u) = True"

text \<open>\<^verbatim>\<open>d.get(k)\<close>, \<^verbatim>\<open>d.get(k, default)\<close> and \<^verbatim>\<open>d[k]\<close>.\<close>

definition dict_get :: "pydict \<Rightarrow> string \<Rightarrow> pyval" where
  "dict_get d k = (case map_of d k of None \<Rightarrow> PNone | Some v \<Rightarrow> v)"

definition dict_get_default :: "pydict \<Rightarrow> string \<Rightarrow> pyval \<Rightarrow> pyval" where
  "dict_get_default d k dflt = (case map_of d k of None \<Rightarrow> dflt | Some v \<Rightarrow> v)"

definition dict_index :: "pydict \<Rightarrow> string \<Rightarrow> error + pyval" where
  "dict_index d k = (case map_of d k of None \<Rightarrow> Inl (KeyError k) | Some v \<Rightarrow> Inr v)"

text \<open>The conversions \<^verbatim>\<open>int(x)\<close>, \<^verbatim>\<open>float(x)\<close>, \<^verbatim>\<open>str(x)\<close>, \<^verbatim>\<open>bool(x)\<close>,
  \<^verbatim>\<open>dict(x)\<close> and \<^verbatim>\<open>list(x)\<close>.\<close>

fun py_int :: "builtins \<Rightarrow> pyval \<Rightarrow> error + int" where
  "py_int B (PInt n) = Inr n"
| "py_int B (PBool b) = Inr (if b then 1 else 0)"
| "py_int B (PFloat r) = Inr (if 0 \<le> r then \<lfloor>r\<rfloor> else \<lceil>r\<rceil>)"
| "py_int B (PStr s) =
     (case int_of_str B s of None \<Rightarrow> Inl (ValueError ''invalid literal for int()'') | Some n \<Rightarrow> Inr n)"
| "py_int B PNone = Inl TypeError"
| "py_int B (PList xs) = Inl TypeError"
| "py_int B (PDict kvs) = Inl TypeError"
| "py_int B (PDatetime d) = Inl TypeError"
| "py_int B (PUUID (UUID n)) = Inr (int n)"

fun py_float :: "builtins \<Rightarrow> pyval \<Rightarrow> error + real" where
  "py_float B (PInt n) = Inr (real_of_int n)"
| "py_float B (PBool b) = Inr (if b then 1 else 0)"
| "py_float B (PFloat r) = Inr r"
| "py_float B (PStr s) =
     (case float_of_str B s of None \<Rightarrow> Inl (ValueError ''could not convert string to float'') | Some r \<Rightarrow> Inr r)"
| "py_float B PNone = Inl TypeError"
| "py_float B (PList xs) = Inl TypeError"
| "py_float B (PDict kvs) = Inl TypeError"
| "py_float B (PDatetime d) = Inl TypeError"
| "py_float B (PUUID u) = Inl TypeError"

fun py_str :: "builtins \<Rightarrow> pyval \<Rightarrow> string" where
  "py_str B (PStr s) = s"
| "py_str B v = repr B v"

fun py_dict :: "builtins \<Rightarrow> pyval \<Rightarrow> error + pydict" where
  "py_dict B (PDict kvs) = Inr kvs"
| "py_dict B v = dict_of_other B v"

fun py_list :: "pyval \<Rightarrow> error + pyval list" where
  "py_list (PList xs) = Inr xs"
| "py_list (PStr s) = Inr (map (\<lambda>c. PStr [c]) s)"
| "py_list (PDict kvs) = Inr (map PStr (remdups (map fst kvs)))"
| "py_list v = Inl TypeError"

text \<open>Sequencing of computations that may raise: the first exception wins.\<close>

definition ebind :: "error + 'a \<Rightarrow> ('a \<Rightarrow> error + 'b) \<Rightarrow> error + 'b" where
  "ebind m f = (case m of Inl e \<Rightarrow> Inl e | Inr a \<Rightarrow> f a)"

section \<open>The domain records of \<^verbatim>\<open>models.py\<close>\<close>

text \<open>
  The optional fields are filled by the parser with whatever \<^verbatim>\<open>dict.get\<close> returned, so
  they hold a Python value, \<open>PNone\<close> when absent.
\<close>

record BO3Team =
  tm_id :: int
  tm_name :: string
  tm_slug :: pyval
  tm_country_code :: pyval
  tm_logo_url :: pyval

record BO3Tournament =
  tr_id :: int
  tr_name :: string
  tr_slug :: pyval
  tr_tier :: pyval
  tr_tier_rank :: pyval
  tr_prize :: pyval
  tr_discipline_id :: pyval
  tr_status :: pyval
  tr_start_date :: "datetime option"
  tr_end_date :: "datetime option"

record BO3PredictionScoresData =
  sd_predicted_score :: real
  sd_proximity_factors :: pydict
  sd_closest_valid_score :: "pyval list"
  sd_overall_proximity_factor :: real
  sd_neighbor_proximity_factor :: real

record BO3AIPrediction =
  ap_id :: int
  ap_match_id :: int
  ap_prediction_team1_score :: int
  ap_prediction_team2_score :: int
  ap_prediction_winner_team_id :: int
  ap_prediction_scores_data :: BO3PredictionScoresData

record BO3BettingTeam =
  bt_name :: string
  bt_coeff :: real
  bt_active :: bool
  bt_team_id :: int
  bt_max_coeff :: real
  bt_aggrement_score :: real

record BO3BettingOdds =
  bo_provider :: string
  bo_team_1 :: BO3BettingTeam
  bo_team_2 :: BO3BettingTeam
  bo_path :: pyval
  bo_markets_count :: pyval
  bo_additional_markets :: pyval

record BO3Match =
  m_id :: int
  m_slug :: pyval
  m_team1_id :: pyval
  m_team2_id :: pyval
  m_status :: string
  m_start_date :: "datetime option"
  m_bo_type :: pyval
  m_tier :: pyval
  m_team1_score :: pyval
  m_team2_score :: pyval
  m_winner_team_id :: pyval
  m_loser_team_id :: pyval
  m_tournament_id :: pyval
  m_team1 :: "BO3Team option"
  m_team2 :: "BO3Team option"
  m_tournament :: "BO3Tournament option"
  m_ai_predictions :: "BO3AIPrediction option"
  m_bet_updates :: "BO3BettingOdds option"
  m_raw_data :: "pydict option"

section \<open>The parser (\<^verbatim>\<open>parser.py\<close>)\<close>

text \<open>
  \<^verbatim>\<open>parse_datetime\<close>: a falsy argument gives \<^verbatim>\<open>None\<close>; a trailing \<^verbatim>\<open>Z\<close> is
  replaced by \<^verbatim>\<open>+00:00\<close>, then every remaining \<^verbatim>\<open>Z\<close> is; a value that is not a string
  has no \<^verbatim>\<open>endswith\<close>, and the \<^verbatim>\<open>AttributeError\<close> is caught like the
  \<^verbatim>\<open>ValueError\<close> of \<^verbatim>\<open>fromisoformat\<close>.
\<close>

definition replace_Z :: "string \<Rightarrow> string" where
  "replace_Z s = concat (map (\<lambda>c. if c = CHR ''Z'' then ''+00:00'' else [c]) s)"

definition parse_datetime :: "builtins \<Rightarrow> pyval \<Rightarrow> datetime option" where
  "parse_datetime B date_str =
     (if \<not> truthy date_str then None
      else case date_str of
        PStr s \<Rightarrow>
          (let s' = (if last s = CHR ''Z'' then butlast s @ ''+00:00'' else s)
           in fromisoformat B (replace_Z s'))
      | _ \<Rightarrow> None)"

fun is_dict :: "pyval \<Rightarrow> bool" where
  "is_dict (PDict kvs) = True"
| "is_dict v = False"

fun the_dict :: "pyval \<Rightarrow> pydict" where
  "the_dict (PDict kvs) = kvs"
| "the_dict v = []"

definition parse_team :: "builtins \<Rightarrow> pyval \<Rightarrow> error + BO3Team option" where
  "parse_team B team_data =
     (if \<not> truthy team_data \<or> \<not> is_dict team_data then Inr None
      else
        let d = the_dict team_data;
            team_id = dict_get d ''id'';
            name = dict_get d ''name''
        in if \<not> truthy team_id \<or> \<not> truthy name then Inr None
           else ebind (py_int B team_id) (\<lambda>i.
                Inr (Some \<lparr>tm_id = i,
                           tm_name = py_str B name,
                           tm_slug = dict_get d ''slug'',
                           tm_country_code = dict_get d ''country_code'',
                           tm_logo_url = dict_get d ''logo_url''\<rparr>)))"

definition parse_tournament :: "builtins \<Rightarrow> pyval \<Rightarrow> error + BO3Tournament option" where
  "parse_tournament B tournament_data =
     (if \<not> truthy tournament_data \<or> \<not> is_dict tournament_data then Inr None
      else
        let d = the_dict tournament_data;
            tournament_id = dict_get d ''id'';
            name = dict_get d ''name''
        in if \<not> truthy tournament_id \<or> \<not> truthy name then Inr None
           else ebind (py_int B tournament_id) (\<lambda>i.
                Inr (Some \<lparr>tr_id = i,
                           tr_name = py_str B name,
                           tr_slug = dict_get d ''slug'',
                           tr_tier = dict_get d ''tier'',
                           tr_tier_rank = dict_get d ''tier_rank'',
                           tr_prize = dict_get d ''prize'',
                           tr_discipline_id = dict_get d ''discipline_id'',
                           tr_status = dict_get d ''status'',
                           tr_start_date = parse_datetime B (dict_get d ''start_date''),
                           tr_end_date = parse_datetime B (dict_get d ''end_date'')\<rparr>)))"

definition parse_prediction_scores_data ::
    "builtins \<Rightarrow> pyval \<Rightarrow> error + BO3PredictionScoresData option" where
  "parse_prediction_scores_data B scores_data =
     (if \<not> truthy scores_data \<or> \<not> is_dict scores_data then Inr None
      else
        let d = the_dict scores_data
        in ebind (py_float B (dict_get_default d ''predicted_score'' (PFloat 0))) (\<lambda>ps.
           ebind (py_dict B (dict_get_default d ''proximity_factors'' (PDict []))) (\<lambda>pf.
           ebind (py_list (dict_get_default d ''closest_valid_score'' (PList []))) (\<lambda>cv.
           ebind (py_float B (dict_get_default d ''overall_proximity_factor'' (PFloat 0))) (\<lambda>ov.
           ebind (py_float B (dict_get_default d ''neighbor_proximity_factor'' (PFloat 0))) (\<lambda>nb.
           Inr (Some \<lparr>sd_predicted_score = ps,
                      sd_proximity_factors = pf,
                      sd_closest_valid_score = cv,
                      sd_overall_proximity_factor = ov,
                      sd_neighbor_proximity_factor = nb\<rparr>)))))))"

definition parse_ai_prediction :: "builtins \<Rightarrow> pyval \<Rightarrow> error + BO3AIPrediction option" where
  "parse_ai_prediction B prediction_data =
     (if \<not> truthy prediction_data \<or> \<not> is_dict prediction_data then Inr None
      else
        let d = the_dict prediction_data;
            prediction_id = dict_get d ''id'';
            match_id = dict_get d ''match_id''
        in if \<not> truthy prediction_id \<or> \<not> truthy match_id then Inr None
           else ebind (parse_prediction_scores_data B (dict_get d ''prediction_scores_data''))
             (\<lambda>scores_data. case scores_data of
                None \<Rightarrow> Inr None
              | Some sd \<Rightarrow>
                  ebind (py_int B prediction_id) (\<lambda>i.
                  ebind (py_int B match_id) (\<lambda>mi.
                  ebind (py_int B (dict_get_default d ''prediction_team1_score'' (PInt 0))) (\<lambda>s1.
                  ebind (py_int B (dict_get_default d ''prediction_team2_score'' (PInt 0))) (\<lambda>s2.
                  ebind (py_int B (dict_get_default d ''prediction_winner_team_id'' (PInt 0))) (\<lambda>w.
                  Inr (Some \<lparr>ap_id = i,
                             ap_match_id = mi,
                             ap_prediction_team1_score = s1,
                             ap_prediction_team2_score = s2,
                             ap_prediction_winner_team_id = w,
                             ap_prediction_scores_data = sd\<rparr>))))))))"

definition parse_betting_team :: "builtins \<Rightarrow> pyval \<Rightarrow> error + BO3BettingTeam option" where
  "parse_betting_team B team_data =
     (if \<not> truthy team_data \<or> \<not> is_dict team_data then Inr None
      else
        let d = the_dict team_data
        in ebind (py_float B (dict_get_default d ''coeff'' (PFloat 0))) (\<lambda>c.
           ebind (py_int B (dict_get_default d ''team_id'' (PInt 0))) (\<lambda>ti.
           ebind (py_float B (dict_get_default d ''max_coeff'' (PFloat 0))) (\<lambda>mc.
           ebind (py_float B (dict_get_default d ''aggrement_score'' (PFloat 0))) (\<lambda>ag.
           Inr (Some \<lparr>bt_name = py_str B (dict_get_default d ''name'' (PStr [])),
                      bt_coeff = c,
                      bt_active = truthy (dict_get_default d ''active'' (PBool False)),
                      bt_team_id = ti,
                      bt_max_coeff = mc,
                      bt_aggrement_score = ag\<rparr>))))))"

definition parse_betting_odds :: "builtins \<Rightarrow> pyval \<Rightarrow> error + BO3BettingOdds option" where
  "parse_betting_odds B odds_data =
     (if \<not> truthy odds_data \<or> \<not> is_dict odds_data then Inr None
      else
        let d = the_dict odds_data;
            provider = dict_get d ''provider'';
            team_1_data = dict_get d ''team_1'';
            team_2_data = dict_get d ''team_2''
        in if \<not> truthy provider \<or> \<not> truthy team_1_data \<or> \<not> truthy team_2_data then Inr None
           else ebind (parse_betting_team B team_1_data) (\<lambda>team_1.
                ebind (parse_betting_team B team_2_data) (\<lambda>team_2.
                case (team_1, team_2) of
                  (Some t1, Some t2) \<Rightarrow>
                    Inr (Some \<lparr>bo_provider = py_str B provider,
                               bo_team_1 = t1,
                               bo_team_2 = t2,
                               bo_path = dict_get d ''path'',
                               bo_markets_count = dict_get d ''markets_count'',
                               bo_additional_markets = dict_get d ''additional_markets''\<rparr>)
                | _ \<Rightarrow> Inr None)))"

definition parse_match :: "builtins \<Rightarrow> pydict \<Rightarrow> error + BO3Match" where
  "parse_match B match_data =
     (let match_id = dict_get match_data ''id''
      in if \<not> truthy match_id then Inl (ValueError ''Match data must include 'id' field'')
         else
           ebind (parse_team B (dict_get match_data ''team1'')) (\<lambda>team1.
           ebind (parse_team B (dict_get match_data ''team2'')) (\<lambda>team2.
           ebind (parse_tournament B (dict_get match_data ''tournament'')) (\<lambda>tournament.
           ebind (parse_ai_prediction B (dict_get match_data ''ai_predictions'')) (\<lambda>ai_predictions.
           ebind (parse_betting_odds B (dict_get match_data ''bet_updates'')) (\<lambda>bet_updates.
           let team1_id = (case team1 of Some t \<Rightarrow> PInt (tm_id t)
                            | None \<Rightarrow> dict_get match_data ''team1_id'');
               team2_id = (case team2 of Some t \<Rightarrow> PInt (tm_id t)
                            | None \<Rightarrow> dict_get match_data ''team2_id'');
               tournament_id = (case tournament of Some t \<Rightarrow> PInt (tr_id t)
                            | None \<Rightarrow> dict_get match_data ''tournament_id'')
           in ebind (py_int B match_id) (\<lambda>i.
              Inr \<lparr>m_id = i,
                   m_slug = dict_get match_data ''slug'',
                   m_team1_id = team1_id,
                   m_team2_id = team2_id,
                   m_status = py_str B (dict_get_default match_data ''status'' (PStr ''upcoming'')),
                   m_start_date = parse_datetime B (dict_get match_data ''start_date''),
                   m_bo_type = dict_get match_data ''bo_type'',
                   m_tier = dict_get match_data ''tier'',
                   m_team1_score = dict_get match_data ''team1_score'',
                   m_team2_score = dict_get match_data ''team2_score'',
                   m_winner_team_id = dict_get match_data ''winner_team_id'',
                   m_loser_team_id = dict_get match_data ''loser_team_id'',
                   m_tournament_id = tournament_id,
                   m_team1 = team1,
                   m_team2 = team2,
                   m_tournament = tournament,
                   m_ai_predictions = ai_predictions,
                   m_bet_updates = bet_updates,
                   m_raw_data = Some match_data\<rparr>)))))))"

section \<open>The mutation layer (\<^verbatim>\<open>mutations/bo3_mutations.py\<close>)\<close>

definition SOURCE_TYPE :: string where
  "SOURCE_TYPE = ''bo3''"

definition date_val :: "datetime option \<Rightarrow> pyval" where
  "date_val d = (case d of None \<Rightarrow> PNone | Some t \<Rightarrow> PDatetime t)"

definition iso_val :: "builtins \<Rightarrow> datetime option \<Rightarrow> pyval" where
  "iso_val B d = (case d of None \<Rightarrow> PNone | Some t \<Rightarrow> PStr (isoformat B t))"

definition to_team_dict :: "BO3Team \<Rightarrow> pydict" where
  "to_team_dict team_data =
     [(''source_type'', PStr SOURCE_TYPE),
      (''source_id'', PInt (tm_id team_data)),
      (''name'', PStr (tm_name team_data)),
      (''slug'', tm_slug team_data),
      (''country_code'', tm_country_code team_data),
      (''logo_url'', tm_logo_url team_data),
      (''metadata'', PDict
         [(''id'', PInt (tm_id team_data)),
          (''name'', PStr (tm_name team_data)),
          (''slug'', tm_slug team_data),
          (''country_code'', tm_country_code team_data),
          (''logo_url'', tm_logo_url team_data)])]"

definition to_tournament_dict :: "builtins \<Rightarrow> BO3Tournament \<Rightarrow> pydict" where
  "to_tournament_dict B tournament_data =
     [(''source_type'', PStr SOURCE_TYPE),
      (''source_id'', PInt (tr_id tournament_data)),
      (''name'', PStr (tr_name tournament_data)),
      (''slug'', tr_slug tournament_data),
      (''tier'', tr_tier tournament_data),
      (''tier_rank'', tr_tier_rank tournament_data),
      (''prize_pool'', tr_prize tournament_data),
      (''discipline_id'', tr_discipline_id tournament_data),
      (''status'', tr_status tournament_data),
      (''start_date'', date_val (tr_start_date tournament_data)),
      (''end_date'', date_val (tr_end_date tournament_data)),
      (''metadata'', PDict
         [(''id'', PInt (tr_id tournament_data)),
          (''name'', PStr (tr_name tournament_data)),
          (''slug'', tr_slug tournament_data),
          (''tier'', tr_tier tournament_data),
          (''tier_rank'', tr_tier_rank tournament_data),
          (''prize'', tr_prize tournament_data),
          (''discipline_id'', tr_discipline_id tournament_data),
          (''status'', tr_status tournament_data),
          (''start_date'', iso_val B (tr_start_date tournament_data)),
          (''end_date'', iso_val B (tr_end_date tournament_data))])]"

definition match_to_raw_dict :: "builtins \<Rightarrow> BO3Match \<Rightarrow> pydict" where
  "match_to_raw_dict B match_data =
     [(''id'', PInt (m_id match_data)),
      (''slug'', m_slug match_data),
      (''team1_id'', m_team1_id match_data),
      (''team2_id'', m_team2_id match_data),
      (''status'', PStr (m_status match_data)),
      (''start_date'', iso_val B (m_start_date match_data)),
      (''bo_type'', m_bo_type match_data),
      (''tier'', m_tier match_data),
      (''team1_score'', m_team1_score match_data),
      (''team2_score'', m_team2_score match_data),
      (''winner_team_id'', m_winner_team_id match_data),
      (''loser_team_id'', m_loser_team_id match_data),
      (''tournament_id'', m_tournament_id match_data)]"

text \<open>
  The dictionary built by \<^verbatim>\<open>to_match_dict\<close> holds plain values and, under the keys
  \<^verbatim>\<open>_team1\<close>, \<^verbatim>\<open>_team2\<close> and \<^verbatim>\<open>_tournament\<close>, the model objects themselves.  The
  storage service pops these three keys before it does anything else; the record keeps
  them beside the plain entries, so \<open>md_fields\<close> is the dictionary after the three pops.
\<close>

record match_dict =
  md_fields :: pydict
  md_team1 :: "BO3Team option"
  md_team2 :: "BO3Team option"
  md_tournament :: "BO3Tournament option"

definition to_match_dict :: "builtins \<Rightarrow> BO3Match \<Rightarrow> match_dict" where
  "to_match_dict B match_data =
     (let team1_id = (case m_team1 match_data of Some t \<Rightarrow> PInt (tm_id t)
                       | None \<Rightarrow> m_team1_id match_data);
          team2_id = (case m_team2 match_data of Some t \<Rightarrow> PInt (tm_id t)
                       | None \<Rightarrow> m_team2_id match_data);
          tournament_id = (case m_tournament match_data of Some t \<Rightarrow> PInt (tr_id t)
                       | None \<Rightarrow> m_tournament_id match_data)
      in \<lparr>md_fields =
            [(''source_type'', PStr SOURCE_TYPE),
             (''source_id'', PInt (m_id match_data)),
             (''slug'', m_slug match_data),
             (''status'', PStr (m_status match_data)),
             (''start_date'', date_val (m_start_date match_data)),
             (''bo_type'', m_bo_type match_data),
             (''tier'', m_tier match_data),
             (''team1_score'', m_team1_score match_data),
             (''team2_score'', m_team2_score match_data),
             (''winner_team_id'', m_winner_team_id match_data),
             (''loser_team_id'', m_loser_team_id match_data),
             (''raw_data'',
                (case m_raw_data match_data of
                   Some d \<Rightarrow> if d \<noteq> [] then PDict d else PDict (match_to_raw_dict B match_data)
                 | None \<Rightarrow> PDict (match_to_raw_dict B match_data))),
             (''_team1_id'', team1_id),
             (''_team2_id'', team2_id),
             (''_tournament_id'', tournament_id)],
          md_team1 = m_team1 match_data,
          md_team2 = m_team2 match_data,
          md_tournament = m_tournament match_data\<rparr>)"

definition to_ai_prediction_dict :: "BO3AIPrediction \<Rightarrow> uuid \<Rightarrow> pydict" where
  "to_ai_prediction_dict prediction_data match_id =
     (let sd = ap_prediction_scores_data prediction_data
      in [(''match_id'', PUUID match_id),
          (''source_type'', PStr SOURCE_TYPE),
          (''source_id'', PInt (ap_id prediction_data)),
          (''prediction_data'', PDict
             [(''id'', PInt (ap_id prediction_data)),
              (''match_id'', PInt (ap_match_id prediction_data)),
              (''prediction_team1_score'', PInt (ap_prediction_team1_score prediction_data)),
              (''prediction_team2_score'', PInt (ap_prediction_team2_score prediction_data)),
              (''prediction_winner_team_id'',
                 PInt (ap_prediction_winner_team_id prediction_data)),
              (''prediction_scores_data'', PDict
                 [(''predicted_score'', PFloat (sd_predicted_score sd)),
                  (''proximity_factors'', PDict (sd_proximity_factors sd)),
                  (''closest_valid_score'', PList (sd_closest_valid_score sd)),
                  (''overall_proximity_factor'', PFloat (sd_overall_proximity_factor sd)),
                  (''neighbor_proximity_factor'',
                     PFloat (sd_neighbor_proximity_factor sd))])])])"

definition betting_team_dict :: "BO3BettingTeam \<Rightarrow> pyval" where
  "betting_team_dict t =
     PDict [(''name'', PStr (bt_name t)),
            (''coeff'', PFloat (bt_coeff t)),
            (''active'', PBool (bt_active t)),
            (''team_id'', PInt (bt_team_id t)),
            (''max_coeff'', PFloat (bt_max_coeff t)),
            (''aggrement_score'', PFloat (bt_aggrement_score t))]"

text \<open>\<^verbatim>\<open>1.0 / coeff if coeff else None\<close>: a float is falsy exactly when it is zero.\<close>

definition implied_prob :: "real \<Rightarrow> pyval" where
  "implied_prob coeff = (if truthy (PFloat coeff) then PFloat (1 / coeff) else PNone)"

definition to_betting_odds_dict :: "BO3BettingOdds \<Rightarrow> uuid \<Rightarrow> pydict" where
  "to_betting_odds_dict odds_data match_id =
     (let team1_implied_prob = implied_prob (bt_coeff (bo_team_1 odds_data));
          team2_implied_prob = implied_prob (bt_coeff (bo_team_2 odds_data))
      in [(''match_id'', PUUID match_id),
          (''source_type'', PStr SOURCE_TYPE),
          (''provider'', PStr (bo_provider odds_data)),
          (''team1_odds'', PFloat (bt_coeff (bo_team_1 odds_data))),
          (''team2_odds'', PFloat (bt_coeff (bo_team_2 odds_data))),
          (''team1_implied_prob'', team1_implied_prob),
          (''team2_implied_prob'', team2_implied_prob),
          (''odds_data'', PDict
             [(''path'', bo_path odds_data),
              (''provider'', PStr (bo_provider odds_data)),
              (''team_1'', betting_team_dict (bo_team_1 odds_data)),
              (''team_2'', betting_team_dict (bo_team_2 odds_data)),
              (''markets_count'', bo_markets_count odds_data),
              (''additional_markets'', bo_additional_markets odds_data)])])"

section \<open>The database and its sessions\<close>

text \<open>
  The relational engine is outside the repository; \<^verbatim>\<open>storage_service.py\<close> talks to it
  through SQL text.  A table is a list of rows; a row has the primary key that the engine
  generates and a value for every column name (\<open>PNone\<close> is SQL \<^verbatim>\<open>NULL\<close>, also for a column
  that an \<^verbatim>\<open>INSERT\<close> does not list, whose schema default the service never supplies).
  The string of a \<^verbatim>\<open>UUID\<close> passed as a parameter is cast back by the engine and is
  written \<open>PUUID\<close>.
\<close>

record row =
  pk :: uuid
  cols :: "string \<Rightarrow> pyval"

record db =
  teams :: "row list"
  tournaments :: "row list"
  matches :: "row list"
  ai_predictions :: "row list"
  betting_odds :: "row list"

text \<open>
  A session sees the committed database plus its own uncommitted writes (\<open>working\<close>).
  \<open>fuse\<close> models a failure of the persistence layer: \<open>Some n\<close> lets \<open>n\<close> more round trips
  to the engine succeed and makes the next one raise; \<open>None\<close> is an engine that does not
  fail.  The world between two calls of the service is the committed database and the fuse.
\<close>

record session =
  committed :: db
  working :: db
  fuse :: "nat option"

record world =
  store :: db
  faults :: "nat option"

type_synonym 'a action = "session \<Rightarrow> (error + 'a) \<times> session"

definition sreturn :: "'a \<Rightarrow> 'a action" where
  "sreturn a s = (Inr a, s)"

definition sraise :: "error \<Rightarrow> 'a action" where
  "sraise e s = (Inl e, s)"

definition lift_e :: "error + 'a \<Rightarrow> 'a action" where
  "lift_e m s = (m, s)"

definition sbind :: "'a action \<Rightarrow> ('a \<Rightarrow> 'b action) \<Rightarrow> 'b action" where
  "sbind m f s = (case m s of (Inl e, s') \<Rightarrow> (Inl e, s') | (Inr a, s') \<Rightarrow> f a s')"

definition round_trip :: "unit action" where
  "round_trip s =
     (case fuse s of
        None \<Rightarrow> (Inr (), s)
      | Some 0 \<Rightarrow> (Inl OperationalError, s\<lparr>fuse := None\<rparr>)
      | Some (Suc n) \<Rightarrow> (Inr (), s\<lparr>fuse := Some n\<rparr>))"

text \<open>SQL equality is never true of \<^verbatim>\<open>NULL\<close>.\<close>

definition sql_eq :: "pyval \<Rightarrow> pyval \<Rightarrow> bool" where
  "sql_eq a b = (a \<noteq> PNone \<and> b \<noteq> PNone \<and> a = b)"

fun scalar_one_or_none :: "'a list \<Rightarrow> error + 'a option" where
  "scalar_one_or_none [] = Inr None"
| "scalar_one_or_none [x] = Inr (Some x)"
| "scalar_one_or_none (x # y # zs) = Inl MultipleResultsFound"

text \<open>\<^verbatim>\<open>session.execute(text("SELECT id FROM ... WHERE ...")).scalar_one_or_none()\<close>\<close>

definition select_scalar :: "(db \<Rightarrow> row list) \<Rightarrow> (row \<Rightarrow> bool) \<Rightarrow> uuid option action" where
  "select_scalar tbl cond =
     sbind round_trip (\<lambda>_ s. (scalar_one_or_none (map pk (filter cond (tbl (working s)))), s))"

definition by_source :: "pyval \<Rightarrow> pyval \<Rightarrow> row \<Rightarrow> bool" where
  "by_source source_type source_id r =
     (sql_eq (cols r ''source_type'') source_type \<and> sql_eq (cols r ''source_id'') source_id)"

text \<open>The engine gives a new row a key that no row of the table has.\<close>

fun uuid_nat :: "uuid \<Rightarrow> nat" where
  "uuid_nat (UUID n) = n"

definition fresh_pk :: "row list \<Rightarrow> uuid" where
  "fresh_pk rows = UUID (Suc (foldr max (map (\<lambda>r. uuid_nat (pk r)) rows) 0))"

text \<open>Binding the named parameters of a statement fails when the dictionary lacks one.\<close>

fun bind_params :: "pydict \<Rightarrow> string list \<Rightarrow> error + pydict" where
  "bind_params params [] = Inr []"
| "bind_params params (c # cs) =
     (case map_of params c of
        None \<Rightarrow> Inl (StatementError c)
      | Some v \<Rightarrow> ebind (bind_params params cs) (\<lambda>rest. Inr ((c, v) # rest)))"

text \<open>\<^verbatim>\<open>INSERT INTO t (c1, ...) VALUES (:c1, ...) RETURNING id\<close> with \<^verbatim>\<open>scalar_one()\<close>\<close>

definition insert_returning ::
    "(db \<Rightarrow> row list) \<Rightarrow> ((row list \<Rightarrow> row list) \<Rightarrow> db \<Rightarrow> db) \<Rightarrow> pydict \<Rightarrow> uuid action" where
  "insert_returning tbl tbl_update colvals =
     sbind round_trip (\<lambda>_ s.
       let r = \<lparr>pk = fresh_pk (tbl (working s)), cols = dict_get colvals\<rparr>
       in (Inr (pk r), s\<lparr>working := tbl_update (\<lambda>rows. rows @ [r]) (working s)\<rparr>))"

text \<open>\<^verbatim>\<open>UPDATE t SET c1 = e1, ... WHERE id = :p\<close>, where an expression is a named
  parameter or \<^verbatim>\<open>NOW()\<close>.\<close>

datatype sqlexpr = BindParam string | NOW

fun bind_set :: "datetime \<Rightarrow> pydict \<Rightarrow> (string \<times> sqlexpr) list \<Rightarrow> error + pydict" where
  "bind_set now params [] = Inr []"
| "bind_set now params ((c, NOW) # cs) =
     ebind (bind_set now params cs) (\<lambda>rest. Inr ((c, PDatetime now) # rest))"
| "bind_set now params ((c, BindParam p) # cs) =
     (case map_of params p of
        None \<Rightarrow> Inl (StatementError p)
      | Some v \<Rightarrow> ebind (bind_set now params cs) (\<lambda>rest. Inr ((c, v) # rest)))"

definition assign :: "pydict \<Rightarrow> row \<Rightarrow> row" where
  "assign sets r = r\<lparr>cols := foldl (\<lambda>f (c, v). f(c := v)) (cols r) sets\<rparr>"

definition update_where_id ::
    "((row list \<Rightarrow> row list) \<Rightarrow> db \<Rightarrow> db) \<Rightarrow> datetime \<Rightarrow> pydict \<Rightarrow>
     (string \<times> sqlexpr) list \<Rightarrow> string \<Rightarrow> unit action" where
  "update_where_id tbl_update now params set_clauses p =
     sbind (lift_e (bind_set now params set_clauses)) (\<lambda>sets.
     sbind (lift_e (bind_params params [p])) (\<lambda>ident.
     sbind round_trip (\<lambda>_ s.
       (Inr (), s\<lparr>working :=
          tbl_update (map (\<lambda>r. if sql_eq (PUUID (pk r)) (dict_get ident p) then assign sets r else r))
            (working s)\<rparr>))))"

definition commit :: "unit action" where
  "commit = sbind round_trip (\<lambda>_ s. (Inr (), s\<lparr>committed := working s\<rparr>))"

definition rollback :: "session \<Rightarrow> session" where
  "rollback s = s\<lparr>working := committed s\<rparr>"

definition open_session :: "world \<Rightarrow> session" where
  "open_session w = \<lparr>committed = store w, working = store w, fuse = faults w\<rparr>"

definition close_session :: "session \<Rightarrow> world" where
  "close_session s = \<lparr>store = committed s, faults = fuse s\<rparr>"

text \<open>
  \<^verbatim>\<open>with self._get_session() as session: try: ... except Exception: session.rollback(); raise\<close>:
  the exception reaches the caller after the rollback, and leaving the block closes the
  session, which drops whatever it has not committed.
\<close>

definition run_session :: "'a action \<Rightarrow> world \<Rightarrow> (error + 'a) \<times> world" where
  "run_session body w =
     (case body (open_session w) of
        (Inl e, s) \<Rightarrow> (Inl e, close_session (rollback s))
      | (Inr a, s) \<Rightarrow> (Inr a, close_session s))"

text \<open>A method of the service called from inside a session opens a session of its own on
  the same database.\<close>

definition nested :: "(world \<Rightarrow> (error + 'a) \<times> world) \<Rightarrow> 'a action" where
  "nested f s =
     (case f \<lparr>store = committed s, faults = fuse s\<rparr> of
        (r, w') \<Rightarrow> (r, s\<lparr>committed := store w', fuse := faults w'\<rparr>))"

section \<open>The storage service (\<^verbatim>\<open>storage_service.py\<close>)\<close>

text \<open>The service is used with its default mutation, \<^verbatim>\<open>BO3Mutation\<close>.\<close>

definition team_columns :: "string list" where
  "team_columns =
     [''source_type'', ''source_id'', ''name'', ''slug'', ''country_code'', ''logo_url'',
      ''metadata'']"

definition tournament_columns :: "string list" where
  "tournament_columns =
     [''source_type'', ''source_id'', ''name'', ''slug'', ''tier'', ''tier_rank'',
      ''prize_pool'', ''discipline_id'', ''status'', ''start_date'', ''end_date'', ''metadata'']"

definition get_or_create_team_from_model :: "BO3Team \<Rightarrow> pyval \<Rightarrow> uuid action" where
  "get_or_create_team_from_model team_data source_type =
     (let team_dict = to_team_dict team_data
      in sbind (lift_e (dict_index team_dict ''source_id'')) (\<lambda>source_id.
         sbind (select_scalar teams (by_source source_type source_id)) (\<lambda>existing.
         case existing of
           Some i \<Rightarrow> sreturn i
         | None \<Rightarrow>
             sbind (lift_e (bind_params team_dict team_columns)) (\<lambda>colvals.
             sbind (insert_returning teams teams_update colvals) (\<lambda>team_id.
             sbind commit (\<lambda>_.
             sreturn team_id))))))"

definition get_or_create_tournament_from_model ::
    "builtins \<Rightarrow> BO3Tournament \<Rightarrow> pyval \<Rightarrow> uuid action" where
  "get_or_create_tournament_from_model B tournament_data source_type =
     (let tournament_dict = to_tournament_dict B tournament_data
      in sbind (lift_e (dict_index tournament_dict ''source_id'')) (\<lambda>source_id.
         sbind (select_scalar tournaments (by_source source_type source_id)) (\<lambda>existing.
         case existing of
           Some i \<Rightarrow> sreturn i
         | None \<Rightarrow>
             sbind (lift_e (bind_params tournament_dict tournament_columns)) (\<lambda>colvals.
             sbind (insert_returning tournaments tournaments_update colvals) (\<lambda>tournament_id.
             sbind commit (\<lambda>_.
             sreturn tournament_id))))))"

text \<open>
  \<^verbatim>\<open>update_match\<close>.  The loop runs over the items of the dictionary (each key once); a
  set clause \<^verbatim>\<open>"key = :key"\<close> is the column with the parameter that feeds it, and
  \<^verbatim>\<open>params[key] = value\<close> puts the entry in front, where \<open>map_of\<close> finds it first.
\<close>

definition allowed_keys :: "string list" where
  "allowed_keys =
     [''team1_score'', ''team2_score'', ''status'', ''winner_team_id'', ''loser_team_id'']"

fun update_loop ::
    "pydict \<Rightarrow> (string \<times> sqlexpr) list \<times> pydict \<Rightarrow> (string \<times> sqlexpr) list \<times> pydict" where
  "update_loop [] acc = acc"
| "update_loop ((key, v) # rest) (set_clauses, params) =
     (if key \<in> set allowed_keys then
        update_loop rest (set_clauses @ [(key, BindParam key)], (key, v) # params)
      else if key = ''raw_data'' then
        update_loop rest
          (set_clauses @ [(''raw_data'', BindParam ''raw_data'')], (''raw_data'', v) # params)
      else update_loop rest (set_clauses, params))"

definition update_match_body :: "datetime \<Rightarrow> uuid \<Rightarrow> pydict \<Rightarrow> unit action" where
  "update_match_body now match_id updates =
     (case update_loop (AList.clearjunk updates) ([], [(''match_id'', PUUID match_id)]) of
        (set_clauses, params) \<Rightarrow>
          if set_clauses = [] then sreturn ()
          else
            sbind (update_where_id matches_update now params
                     (set_clauses @ [(''updated_at'', NOW), (''last_fetched_at'', NOW)])
                     ''match_id'') (\<lambda>_.
            commit))"

definition update_match :: "datetime \<Rightarrow> uuid \<Rightarrow> pydict \<Rightarrow> world \<Rightarrow> (error + unit) \<times> world" where
  "update_match now match_id updates = run_session (update_match_body now match_id updates)"

text \<open>\<^verbatim>\<open>str(v) if v else None\<close>\<close>

definition str_or_none :: "builtins \<Rightarrow> pyval \<Rightarrow> pyval" where
  "str_or_none B v = (if truthy v then PStr (py_str B v) else PNone)"

definition save_match_body :: "builtins \<Rightarrow> datetime \<Rightarrow> BO3Match \<Rightarrow> uuid action" where
  "save_match_body B now match_data =
     (let md = to_match_dict B match_data;
          match_dict = md_fields md
      in sbind (lift_e (dict_index match_dict ''source_type'')) (\<lambda>source_type.
         sbind (lift_e (dict_index match_dict ''source_id'')) (\<lambda>source_id.
         case (md_team1 md, md_team2 md) of
           (Some team1_data, Some team2_data) \<Rightarrow>
             sbind (get_or_create_team_from_model team1_data source_type) (\<lambda>team1_id.
             sbind (get_or_create_team_from_model team2_data source_type) (\<lambda>team2_id.
             sbind (case md_tournament md of
                      None \<Rightarrow> sreturn None
                    | Some tournament_data \<Rightarrow>
                        sbind (get_or_create_tournament_from_model B tournament_data source_type)
                          (\<lambda>i. sreturn (Some i))) (\<lambda>tournament_id.
             sbind (select_scalar matches (by_source source_type source_id)) (\<lambda>existing.
             case existing of
               Some match_id \<Rightarrow>
                 sbind (nested (update_match now match_id match_dict)) (\<lambda>_.
                 sreturn match_id)
             | None \<Rightarrow>
                 sbind (insert_returning matches matches_update
                   [(''source_type'', source_type),
                    (''source_id'', source_id),
                    (''slug'', dict_get match_dict ''slug''),
                    (''team1_id'', PUUID team1_id),
                    (''team2_id'', PUUID team2_id),
                    (''tournament_id'',
                       (case tournament_id of Some t \<Rightarrow> PUUID t | None \<Rightarrow> PNone)),
                    (''status'', dict_get_default match_dict ''status'' (PStr ''upcoming'')),
                    (''start_date'', dict_get match_dict ''start_date''),
                    (''bo_type'', dict_get match_dict ''bo_type''),
                    (''tier'', dict_get match_dict ''tier''),
                    (''team1_score'', dict_get match_dict ''team1_score''),
                    (''team2_score'', dict_get match_dict ''team2_score''),
                    (''winner_team_id'', str_or_none B (dict_get match_dict ''winner_team_id'')),
                    (''loser_team_id'', str_or_none B (dict_get match_dict ''loser_team_id'')),
                    (''raw_data'', dict_get match_dict ''raw_data''),
                    (''last_fetched_at'', PDatetime now)]) (\<lambda>match_id.
                 sbind commit (\<lambda>_.
                 sreturn match_id))))))
         | _ \<Rightarrow> sraise (ValueError ''Match must have team1 and team2 data''))))"

definition save_match :: "builtins \<Rightarrow> datetime \<Rightarrow> BO3Match \<Rightarrow> world \<Rightarrow> (error + uuid) \<times> world" where
  "save_match B now match_data = run_session (save_match_body B now match_data)"

definition save_ai_prediction_body :: "datetime \<Rightarrow> uuid \<Rightarrow> BO3AIPrediction \<Rightarrow> uuid action" where
  "save_ai_prediction_body now match_id prediction_data =
     (let prediction_dict = to_ai_prediction_dict prediction_data match_id
      in sbind (lift_e (dict_index prediction_dict ''source_type'')) (\<lambda>source_type.
         sbind (lift_e (dict_index prediction_dict ''source_id'')) (\<lambda>source_id.
         sbind (select_scalar ai_predictions
                  (\<lambda>r. sql_eq (cols r ''match_id'') (PUUID match_id) \<and>
                       sql_eq (cols r ''source_type'') source_type)) (\<lambda>existing.
         case existing of
           Some i \<Rightarrow>
             sbind (lift_e (dict_index prediction_dict ''prediction_data'')) (\<lambda>pd.
             sbind (update_where_id ai_predictions_update now
                      [(''id'', PUUID i), (''prediction_data'', pd), (''source_id'', source_id)]
                      [(''prediction_data'', BindParam ''prediction_data''),
                       (''source_id'', BindParam ''source_id''),
                       (''updated_at'', NOW)]
                      ''id'') (\<lambda>_.
             sbind commit (\<lambda>_.
             sreturn i)))
         | None \<Rightarrow>
             sbind (lift_e (bind_params prediction_dict
                      [''match_id'', ''source_type'', ''source_id'', ''prediction_data''])) (\<lambda>colvals.
             sbind (insert_returning ai_predictions ai_predictions_update colvals) (\<lambda>pred_id.
             sbind commit (\<lambda>_.
             sreturn pred_id)))))))"

definition save_ai_prediction ::
    "datetime \<Rightarrow> uuid \<Rightarrow> BO3AIPrediction \<Rightarrow> world \<Rightarrow> (error + uuid) \<times> world" where
  "save_ai_prediction now match_id prediction_data =
     run_session (save_ai_prediction_body now match_id prediction_data)"

definition save_betting_odds_body :: "datetime \<Rightarrow> uuid \<Rightarrow> BO3BettingOdds \<Rightarrow> uuid action" where
  "save_betting_odds_body now match_id odds_data =
     (let odds_dict = to_betting_odds_dict odds_data match_id
      in sbind (lift_e (dict_index odds_dict ''source_type'')) (\<lambda>source_type.
         sbind (lift_e (dict_index odds_dict ''provider'')) (\<lambda>provider.
         sbind (select_scalar betting_odds
                  (\<lambda>r. sql_eq (cols r ''match_id'') (PUUID match_id) \<and>
                       sql_eq (cols r ''source_type'') source_type \<and>
                       sql_eq (cols r ''provider'') provider)) (\<lambda>existing.
         case existing of
           Some i \<Rightarrow>
             sbind (lift_e (dict_index odds_dict ''team1_odds'')) (\<lambda>team1_odds.
             sbind (lift_e (dict_index odds_dict ''team2_odds'')) (\<lambda>team2_odds.
             sbind (lift_e (dict_index odds_dict ''team1_implied_prob'')) (\<lambda>team1_implied_prob.
             sbind (lift_e (dict_index odds_dict ''team2_implied_prob'')) (\<lambda>team2_implied_prob.
             sbind (lift_e (dict_index odds_dict ''odds_data'')) (\<lambda>od.
             sbind (update_where_id betting_odds_update now
                      [(''id'', PUUID i),
                       (''team1_odds'', team1_odds),
                       (''team2_odds'', team2_odds),
                       (''team1_implied_prob'', team1_implied_prob),
                       (''team2_implied_prob'', team2_implied_prob),
                       (''odds_data'', od)]
                      [(''team1_odds'', BindParam ''team1_odds''),
                       (''team2_odds'', BindParam ''team2_odds''),
                       (''team1_implied_prob'', BindParam ''team1_implied_prob''),
                       (''team2_implied_prob'', BindParam ''team2_implied_prob''),
                       (''odds_data'', BindParam ''odds_data''),
                       (''updated_at'', NOW),
                       (''fetched_at'', NOW)]
                      ''id'') (\<lambda>_.
             sbind commit (\<lambda>_.
             sreturn i)))))))
         | None \<Rightarrow>
             sbind (lift_e (bind_params odds_dict
                      [''match_id'', ''source_type'', ''provider'', ''team1_odds'', ''team2_odds'',
                       ''team1_implied_prob'', ''team2_implied_prob'', ''odds_data''])) (\<lambda>colvals.
             sbind (insert_returning betting_odds betting_odds_update
                      (colvals @ [(''fetched_at'', PDatetime now)])) (\<lambda>odds_id.
             sbind commit (\<lambda>_.
             sreturn odds_id)))))))"

definition save_betting_odds ::
    "datetime \<Rightarrow> uuid \<Rightarrow> BO3BettingOdds \<Rightarrow> world \<Rightarrow> (error + uuid) \<times> world" where
  "save_betting_odds now match_id odds_data =
     run_session (save_betting_odds_body now match_id odds_data)"

text \<open>A library whose text conversions reject every string, for evaluating examples.\<close>

definition plain_builtins :: builtins where
  "plain_builtins =
     \<lparr>int_of_str = (\<lambda>s. None), float_of_str = (\<lambda>s. None), repr = (\<lambda>v. []),
      dict_of_other = (\<lambda>v. Inl TypeError), fromisoformat = (\<lambda>s. None),
      isoformat = (\<lambda>d. [])\<rparr>"

definition empty_db :: db where
  "empty_db = \<lparr>teams = [], tournaments = [], matches = [], ai_predictions = [], betting_odds = []\<rparr>"

section \<open>Example data\<close>












definition ex_betting_team_payload :: pydict where
  "ex_betting_team_payload = [(''name'', PStr ''The MongolZ'')]"

definition ex_betting_team :: BO3BettingTeam where
  "ex_betting_team =
     \<lparr>bt_name = ''The MongolZ'', bt_coeff = 0, bt_active = False, bt_team_id = 0,
      bt_max_coeff = 0, bt_aggrement_score = 0\<rparr>"

definition ex_partial_payload :: pydict where
  "ex_partial_payload =
     [(''id'', PInt 103084),
      (''team1'', PDict [(''name'', PStr ''The MongolZ'')]),
      (''team2'', PDict [(''id'', PInt 7631)]),
      (''tournament'', PDict [(''name'', PStr ''BLAST Rivals Fall 2025'')])]"

definition ex_partial_match :: BO3Match where
  "ex_partial_match =
     \<lparr>m_id = 103084, m_slug = PNone, m_team1_id = PNone, m_team2_id = PNone,
      m_status = ''upcoming'', m_start_date = None, m_bo_type = PNone, m_tier = PNone,
      m_team1_score = PNone, m_team2_score = PNone, m_winner_team_id = PNone,
      m_loser_team_id = PNone, m_tournament_id = PNone,
      m_team1 = None, m_team2 = None, m_tournament = None,
      m_ai_predictions = None, m_bet_updates = None, m_raw_data = Some ex_partial_payload\<rparr>"

definition ex_odds :: BO3BettingOdds where
  "ex_odds =
     \<lparr>bo_provider = ''1xbit'',
      bo_team_1 = \<lparr>bt_name = ''The MongolZ'', bt_coeff = 2, bt_active = True, bt_team_id = 736,
                    bt_max_coeff = 2, bt_aggrement_score = 0.74\<rparr>,
      bo_team_2 = ex_betting_team,
      bo_path = PNone, bo_markets_count = PInt 36, bo_additional_markets = PNone\<rparr>"

section \<open>Properties of the parser\<close>

lemma ebindE:
  assumes "ebind m f = Inr y"
  obtains a where "m = Inr a" and "f a = Inr y"
  using assms by (cases m) (simp_all add: ebind_def)

lemma dict_get_absent: "map_of d k = None \<Longrightarrow> dict_get d k = PNone"
  by (simp add: dict_get_def)

lemma dict_get_default_absent: "map_of d k = None \<Longrightarrow> dict_get_default d k v = v"
  by (simp add: dict_get_default_def)

lemma dict_get_present: "map_of d k = Some v \<Longrightarrow> dict_get d k = v"
  by (simp add: dict_get_def)


lemma parse_team_falsy:
  "\<not> truthy (dict_get d ''id'') \<or> \<not> truthy (dict_get d ''name'') \<Longrightarrow>
   parse_team B (PDict d) = Inr None"
  by (simp add: parse_team_def Let_def)

lemma parse_tournament_falsy:
  "\<not> truthy (dict_get d ''id'') \<or> \<not> truthy (dict_get d ''name'') \<Longrightarrow>
   parse_tournament B (PDict d) = Inr None"
  by (simp add: parse_tournament_def Let_def)

lemma parse_match_falsy:
  "\<not> truthy (dict_get md ''id'') \<Longrightarrow>
   parse_match B md = Inl (ValueError ''Match data must include 'id' field'')"
  by (simp add: parse_match_def)





lemma parse_betting_team_Some:
  assumes "parse_betting_team B (PDict d) = Inr (Some t)"
  shows "\<exists>c ti mc ag.
           py_float B (dict_get_default d ''coeff'' (PFloat 0)) = Inr c \<and>
           py_int B (dict_get_default d ''team_id'' (PInt 0)) = Inr ti \<and>
           py_float B (dict_get_default d ''max_coeff'' (PFloat 0)) = Inr mc \<and>
           py_float B (dict_get_default d ''aggrement_score'' (PFloat 0)) = Inr ag \<and>
           t = \<lparr>bt_name = py_str B (dict_get_default d ''name'' (PStr [])),
                 bt_coeff = c,
                 bt_active = truthy (dict_get_default d ''active'' (PBool False)),
                 bt_team_id = ti,
                 bt_max_coeff = mc,
                 bt_aggrement_score = ag\<rparr>"
proof -
  from assms have g: "\<not> (\<not> truthy (PDict d) \<or> \<not> is_dict (PDict d))"
    by (simp_all add: parse_betting_team_def Let_def split: if_splits)
  from assms show ?thesis
    unfolding parse_betting_team_def Let_def the_dict.simps
    by (simp only: g if_False)
      (elim ebindE, simp only: sum.inject option.inject,
       (intro exI conjI; (assumption | rule refl | (rule sym, assumption))))
qed






lemma ex_betting_team_parsed:
  "parse_betting_team plain_builtins (PDict ex_betting_team_payload) = Inr (Some ex_betting_team)"
  by (simp add: parse_betting_team_def ex_betting_team_payload_def ex_betting_team_def
      dict_get_default_def ebind_def)


lemma parse_match_Inr:
  assumes "parse_match B md = Inr m"
  shows "\<exists>team1 team2 tournament ai bo i.
           parse_team B (dict_get md ''team1'') = Inr team1 \<and>
           parse_team B (dict_get md ''team2'') = Inr team2 \<and>
           parse_tournament B (dict_get md ''tournament'') = Inr tournament \<and>
           m = \<lparr>m_id = i,
                   m_slug = dict_get md ''slug'',
                   m_team1_id = (case team1 of Some t \<Rightarrow> PInt (tm_id t)
                            | None \<Rightarrow> dict_get md ''team1_id''),
                   m_team2_id = (case team2 of Some t \<Rightarrow> PInt (tm_id t)
                            | None \<Rightarrow> dict_get md ''team2_id''),
                   m_status = py_str B (dict_get_default md ''status'' (PStr ''upcoming'')),
                   m_start_date = parse_datetime B (dict_get md ''start_date''),
                   m_bo_type = dict_get md ''bo_type'',
                   m_tier = dict_get md ''tier'',
                   m_team1_score = dict_get md ''team1_score'',
                   m_team2_score = dict_get md ''team2_score'',
                   m_winner_team_id = dict_get md ''winner_team_id'',
                   m_loser_team_id = dict_get md ''loser_team_id'',
                   m_tournament_id = (case tournament of Some t \<Rightarrow> PInt (tr_id t)
                            | None \<Rightarrow> dict_get md ''tournament_id''),
                   m_team1 = team1,
                   m_team2 = team2,
                   m_tournament = tournament,
                   m_ai_predictions = ai,
                   m_bet_updates = bo,
                   m_raw_data = Some md\<rparr>"
proof -
  from assms have g: "\<not> \<not> truthy (dict_get md ''id'')"
    by (simp add: parse_match_def Let_def split: if_splits)
  from assms show ?thesis
    unfolding parse_match_def Let_def
    by (simp only: g if_False)
      (elim ebindE, simp only: sum.inject,
       (intro exI conjI; (assumption | rule refl | (rule sym, assumption))))
qed

lemma parse_match_nested:
  assumes "parse_match B md = Inr m"
  shows "parse_team B (dict_get md ''team1'') = Inr (m_team1 m)"
    and "parse_team B (dict_get md ''team2'') = Inr (m_team2 m)"
    and "parse_tournament B (dict_get md ''tournament'') = Inr (m_tournament m)"
proof -
  from parse_match_Inr [OF assms] obtain team1 team2 tournament ai bo i where
    h: "parse_team B (dict_get md ''team1'') = Inr team1"
       "parse_team B (dict_get md ''team2'') = Inr team2"
       "parse_tournament B (dict_get md ''tournament'') = Inr tournament"
    and m: "m = \<lparr>m_id = i,
                   m_slug = dict_get md ''slug'',
                   m_team1_id = (case team1 of Some t \<Rightarrow> PInt (tm_id t)
                            | None \<Rightarrow> dict_get md ''team1_id''),
                   m_team2_id = (case team2 of Some t \<Rightarrow> PInt (tm_id t)
                            | None \<Rightarrow> dict_get md ''team2_id''),
                   m_status = py_str B (dict_get_default md ''status'' (PStr ''upcoming'')),
                   m_start_date = parse_datetime B (dict_get md ''start_date''),
                   m_bo_type = dict_get md ''bo_type'',
                   m_tier = dict_get md ''tier'',
                   m_team1_score = dict_get md ''team1_score'',
                   m_team2_score = dict_get md ''team2_score'',
                   m_winner_team_id = dict_get md ''winner_team_id'',
                   m_loser_team_id = dict_get md ''loser_team_id'',
                   m_tournament_id = (case tournament of Some t \<Rightarrow> PInt (tr_id t)
                            | None \<Rightarrow> dict_get md ''tournament_id''),
                   m_team1 = team1,
                   m_team2 = team2,
                   m_tournament = tournament,
                   m_ai_predictions = ai,
                   m_bet_updates = bo,
                   m_raw_data = Some md\<rparr>"
    by blast
  show "parse_team B (dict_get md ''team1'') = Inr (m_team1 m)" using h(1) by (simp add: m)
  show "parse_team B (dict_get md ''team2'') = Inr (m_team2 m)" using h(2) by (simp add: m)
  show "parse_tournament B (dict_get md ''tournament'') = Inr (m_tournament m)"
    using h(3) by (simp add: m)
qed






lemma parse_betting_team_numeric:
  assumes "parse_betting_team B (PDict d) = Inr (Some t)"
  shows "py_float B (dict_get_default d ''coeff'' (PFloat 0)) = Inr (bt_coeff t)"
    and "py_int B (dict_get_default d ''team_id'' (PInt 0)) = Inr (bt_team_id t)"
    and "py_float B (dict_get_default d ''max_coeff'' (PFloat 0)) = Inr (bt_max_coeff t)"
    and "py_float B (dict_get_default d ''aggrement_score'' (PFloat 0)) =
           Inr (bt_aggrement_score t)"
  using parse_betting_team_Some [OF assms] by auto

text \<open>
  Claim C6.  A nested team or tournament payload that lacks its \<^verbatim>\<open>id\<close> or its
  \<^verbatim>\<open>name\<close> is parsed to \<^verbatim>\<open>None\<close>, without an exception, and the match around it
  is still parsed, with that sub-object absent.  A match payload that lacks its \<^verbatim>\<open>id\<close>
  raises \<^verbatim>\<open>ValueError\<close>, the exception that the service uses for invalid input.
\<close>

theorem parse_missing_identity:
  "(map_of d ''id'' = None \<or> map_of d ''name'' = None \<longrightarrow>
      parse_team B (PDict d) = Inr None \<and> parse_tournament B (PDict d) = Inr None)
   \<and> (map_of md ''id'' = None \<longrightarrow>
      parse_match B md = Inl (ValueError ''Match data must include 'id' field''))
   \<and> (dict_get md ''team1'' = PDict d \<and> (map_of d ''id'' = None \<or> map_of d ''name'' = None) \<and>
       parse_match B md = Inr m \<longrightarrow> m_team1 m = None)
   \<and> (dict_get md ''team2'' = PDict d \<and> (map_of d ''id'' = None \<or> map_of d ''name'' = None) \<and>
       parse_match B md = Inr m \<longrightarrow> m_team2 m = None)
   \<and> (dict_get md ''tournament'' = PDict d \<and>
       (map_of d ''id'' = None \<or> map_of d ''name'' = None) \<and>
       parse_match B md = Inr m \<longrightarrow> m_tournament m = None)"
proof (intro conjI impI)
  assume h: "map_of d ''id'' = None \<or> map_of d ''name'' = None"
  then have f: "\<not> truthy (dict_get d ''id'') \<or> \<not> truthy (dict_get d ''name'')"
    by (auto simp: dict_get_def)
  show "parse_team B (PDict d) = Inr None" by (rule parse_team_falsy [OF f])
  show "parse_tournament B (PDict d) = Inr None" by (rule parse_tournament_falsy [OF f])
next
  assume "map_of md ''id'' = None"
  then have "\<not> truthy (dict_get md ''id'')" by (simp add: dict_get_def)
  then show "parse_match B md = Inl (ValueError ''Match data must include 'id' field'')"
    by (rule parse_match_falsy)
next
  assume h: "dict_get md ''team1'' = PDict d \<and>
    (map_of d ''id'' = None \<or> map_of d ''name'' = None) \<and> parse_match B md = Inr m"
  then have f: "\<not> truthy (dict_get d ''id'') \<or> \<not> truthy (dict_get d ''name'')"
    by (auto simp: dict_get_def)
  from h parse_match_nested(1) [of B md m] parse_team_falsy [OF f, of B]
  show "m_team1 m = None" by simp
next
  assume h: "dict_get md ''team2'' = PDict d \<and>
    (map_of d ''id'' = None \<or> map_of d ''name'' = None) \<and> parse_match B md = Inr m"
  then have f: "\<not> truthy (dict_get d ''id'') \<or> \<not> truthy (dict_get d ''name'')"
    by (auto simp: dict_get_def)
  from h parse_match_nested(2) [of B md m] parse_team_falsy [OF f, of B]
  show "m_team2 m = None" by simp
next
  assume h: "dict_get md ''tournament'' = PDict d \<and>
    (map_of d ''id'' = None \<or> map_of d ''name'' = None) \<and> parse_match B md = Inr m"
  then have f: "\<not> truthy (dict_get d ''id'') \<or> \<not> truthy (dict_get d ''name'')"
    by (auto simp: dict_get_def)
  from h parse_match_nested(3) [of B md m] parse_tournament_falsy [OF f, of B]
  show "m_tournament m = None" by simp
qed

lemma ex_partial_parsed: "parse_match plain_builtins ex_partial_payload = Inr ex_partial_match"
proof -
  have d: "dict_get ex_partial_payload ''team1'' = PDict [(''name'', PStr ''The MongolZ'')]"
    "dict_get ex_partial_payload ''team2'' = PDict [(''id'', PInt 7631)]"
    "dict_get ex_partial_payload ''tournament'' = PDict [(''name'', PStr ''BLAST Rivals Fall 2025'')]"
    "dict_get ex_partial_payload ''ai_predictions'' = PNone"
    "dict_get ex_partial_payload ''bet_updates'' = PNone"
    "dict_get ex_partial_payload ''id'' = PInt 103084"
    by (simp_all add: ex_partial_payload_def dict_get_def)
  have n: "parse_ai_prediction plain_builtins PNone = Inr None"
    "parse_betting_odds plain_builtins PNone = Inr None"
    "parse_team plain_builtins (PDict [(''name'', PStr ''The MongolZ'')]) = Inr None"
    "parse_team plain_builtins (PDict [(''id'', PInt 7631)]) = Inr None"
    "parse_tournament plain_builtins (PDict [(''name'', PStr ''BLAST Rivals Fall 2025'')]) = Inr None"
    by (simp_all add: parse_ai_prediction_def parse_betting_odds_def parse_team_def
        parse_tournament_def dict_get_def)
  show ?thesis
    unfolding parse_match_def Let_def d
    by (simp add: n ebind_def)
      (simp add: ex_partial_match_def ex_partial_payload_def dict_get_def dict_get_default_def
        parse_datetime_def)
qed

theorem parse_missing_identity_witness:
  "map_of [(''name'', PStr ''The MongolZ'')] ''id'' = None \<and>
   parse_team plain_builtins (PDict [(''name'', PStr ''The MongolZ'')]) = Inr None \<and>
   parse_tournament plain_builtins (PDict [(''name'', PStr ''The MongolZ'')]) = Inr None \<and>
   map_of [(''slug'', PStr ''example-match'')] ''id'' = None \<and>
   parse_match plain_builtins [(''slug'', PStr ''example-match'')] =
     Inl (ValueError ''Match data must include 'id' field'') \<and>
   parse_match plain_builtins ex_partial_payload = Inr ex_partial_match \<and>
   m_team1 ex_partial_match = None \<and> m_team2 ex_partial_match = None \<and>
   m_tournament ex_partial_match = None"
proof -
  have a: "map_of [(''name'', PStr ''The MongolZ'')] ''id'' = None" by simp
  have b: "map_of [(''slug'', PStr ''example-match'')] ''id'' = None" by simp
  have c: "dict_get ex_partial_payload ''team1'' = PDict [(''name'', PStr ''The MongolZ'')]"
    "dict_get ex_partial_payload ''team2'' = PDict [(''id'', PInt 7631)]"
    "map_of [(''id'', PInt 7631)] ''name'' = None"
    "dict_get ex_partial_payload ''tournament'' = PDict [(''name'', PStr ''BLAST Rivals Fall 2025'')]"
    "map_of [(''name'', PStr ''BLAST Rivals Fall 2025'')] ''id'' = None"
    by (simp_all add: ex_partial_payload_def dict_get_def)
  note t1 = parse_missing_identity [of "[(''name'', PStr ''The MongolZ'')]" plain_builtins
      "[(''slug'', PStr ''example-match'')]" ex_partial_match]
  note t2 = parse_missing_identity [of "[(''name'', PStr ''The MongolZ'')]" plain_builtins
      ex_partial_payload ex_partial_match]
  note t3 = parse_missing_identity [of "[(''id'', PInt 7631)]" plain_builtins
      ex_partial_payload ex_partial_match]
  note t4 = parse_missing_identity [of "[(''name'', PStr ''BLAST Rivals Fall 2025'')]"
      plain_builtins ex_partial_payload ex_partial_match]
  from t1 a b have 1: "parse_team plain_builtins (PDict [(''name'', PStr ''The MongolZ'')]) = Inr None"
    "parse_tournament plain_builtins (PDict [(''name'', PStr ''The MongolZ'')]) = Inr None"
    "parse_match plain_builtins [(''slug'', PStr ''example-match'')] =
     Inl (ValueError ''Match data must include 'id' field'')"
    by blast+
  from t2 a c ex_partial_parsed have 2: "m_team1 ex_partial_match = None" by blast
  from t3 c ex_partial_parsed have 3: "m_team2 ex_partial_match = None" by blast
  from t4 c ex_partial_parsed have 4: "m_tournament ex_partial_match = None" by blast
  from a b 1 2 3 4 ex_partial_parsed show ?thesis by blast
qed

lemma map_of_delete_self: "map_of (AList.delete k d) k = None"
  by (simp add: delete_conv')

text \<open>
  Claim C10.  The required-field checks test truthiness: a team or tournament payload whose
  \<^verbatim>\<open>id\<close> is \<^verbatim>\<open>0\<close> or whose \<^verbatim>\<open>name\<close> is the empty string is parsed to \<^verbatim>\<open>None\<close>,
  exactly as the payload without that key is, and a match payload whose \<^verbatim>\<open>id\<close> is \<^verbatim>\<open>0\<close>
  raises the same \<^verbatim>\<open>ValueError\<close> as the payload without \<^verbatim>\<open>id\<close>.
\<close>

theorem parse_required_truthiness:
  "(map_of d ''id'' = Some (PInt 0) \<longrightarrow>
      parse_team B (PDict d) = Inr None \<and>
      parse_team B (PDict d) = parse_team B (PDict (AList.delete ''id'' d)) \<and>
      parse_tournament B (PDict d) = Inr None \<and>
      parse_tournament B (PDict d) = parse_tournament B (PDict (AList.delete ''id'' d)))
   \<and> (map_of d ''name'' = Some (PStr []) \<longrightarrow>
      parse_team B (PDict d) = Inr None \<and>
      parse_team B (PDict d) = parse_team B (PDict (AList.delete ''name'' d)) \<and>
      parse_tournament B (PDict d) = Inr None \<and>
      parse_tournament B (PDict d) = parse_tournament B (PDict (AList.delete ''name'' d)))
   \<and> (map_of md ''id'' = Some (PInt 0) \<longrightarrow>
      parse_match B md = Inl (ValueError ''Match data must include 'id' field'') \<and>
      parse_match B md = parse_match B (AList.delete ''id'' md))"
proof (intro conjI impI)
  assume h: "map_of d ''id'' = Some (PInt 0)"
  have f: "\<not> truthy (dict_get d ''id'') \<or> \<not> truthy (dict_get d ''name'')"
    using h by (simp add: dict_get_def)
  have g: "\<not> truthy (dict_get (AList.delete ''id'' d) ''id'') \<or>
           \<not> truthy (dict_get (AList.delete ''id'' d) ''name'')"
    by (simp add: dict_get_def map_of_delete_self)
  show "parse_team B (PDict d) = Inr None" by (rule parse_team_falsy [OF f])
  show "parse_tournament B (PDict d) = Inr None" by (rule parse_tournament_falsy [OF f])
  show "parse_team B (PDict d) = parse_team B (PDict (AList.delete ''id'' d))"
    by (simp only: parse_team_falsy [OF f] parse_team_falsy [OF g])
  show "parse_tournament B (PDict d) = parse_tournament B (PDict (AList.delete ''id'' d))"
    by (simp only: parse_tournament_falsy [OF f] parse_tournament_falsy [OF g])
next
  assume h: "map_of d ''name'' = Some (PStr [])"
  have f: "\<not> truthy (dict_get d ''id'') \<or> \<not> truthy (dict_get d ''name'')"
    using h by (simp add: dict_get_def)
  have g: "\<not> truthy (dict_get (AList.delete ''name'' d) ''id'') \<or>
           \<not> truthy (dict_get (AList.delete ''name'' d) ''name'')"
    by (simp add: dict_get_def map_of_delete_self)
  show "parse_team B (PDict d) = Inr None" by (rule parse_team_falsy [OF f])
  show "parse_tournament B (PDict d) = Inr None" by (rule parse_tournament_falsy [OF f])
  show "parse_team B (PDict d) = parse_team B (PDict (AList.delete ''name'' d))"
    by (simp only: parse_team_falsy [OF f] parse_team_falsy [OF g])
  show "parse_tournament B (PDict d) = parse_tournament B (PDict (AList.delete ''name'' d))"
    by (simp only: parse_tournament_falsy [OF f] parse_tournament_falsy [OF g])
next
  assume h: "map_of md ''id'' = Some (PInt 0)"
  have f: "\<not> truthy (dict_get md ''id'')" using h by (simp add: dict_get_def)
  have g: "\<not> truthy (dict_get (AList.delete ''id'' md) ''id'')"
    by (simp add: dict_get_def map_of_delete_self)
  show "parse_match B md = Inl (ValueError ''Match data must include 'id' field'')"
    by (rule parse_match_falsy [OF f])
  show "parse_match B md = parse_match B (AList.delete ''id'' md)"
    by (simp only: parse_match_falsy [OF f] parse_match_falsy [OF g])
qed

theorem parse_required_truthiness_witness:
  "map_of [(''id'', PInt 0), (''name'', PStr ''The MongolZ'')] ''id'' = Some (PInt 0) \<and>
   parse_team plain_builtins (PDict [(''id'', PInt 0), (''name'', PStr ''The MongolZ'')]) = Inr None \<and>
   parse_tournament plain_builtins (PDict [(''id'', PInt 0), (''name'', PStr ''The MongolZ'')]) =
     Inr None \<and>
   map_of [(''id'', PInt 736), (''name'', PStr [])] ''name'' = Some (PStr []) \<and>
   parse_team plain_builtins (PDict [(''id'', PInt 736), (''name'', PStr [])]) = Inr None \<and>
   parse_tournament plain_builtins (PDict [(''id'', PInt 736), (''name'', PStr [])]) = Inr None \<and>
   map_of [(''id'', PInt 0), (''slug'', PStr ''example-match'')] ''id'' = Some (PInt 0) \<and>
   parse_match plain_builtins [(''id'', PInt 0), (''slug'', PStr ''example-match'')] =
     Inl (ValueError ''Match data must include 'id' field'')"
proof -
  have a: "map_of [(''id'', PInt 0), (''name'', PStr ''The MongolZ'')] ''id'' = Some (PInt 0)"
    by simp
  have b: "map_of [(''id'', PInt 736), (''name'', PStr [])] ''name'' = Some (PStr [])"
    by simp
  have c: "map_of [(''id'', PInt 0), (''slug'', PStr ''example-match'')] ''id'' = Some (PInt 0)"
    by simp
  note t1 = parse_required_truthiness [of "[(''id'', PInt 0), (''name'', PStr ''The MongolZ'')]"
      plain_builtins "[(''id'', PInt 0), (''slug'', PStr ''example-match'')]"]
  note t2 = parse_required_truthiness [of "[(''id'', PInt 736), (''name'', PStr [])]"
      plain_builtins "[(''id'', PInt 0), (''slug'', PStr ''example-match'')]"]
  from t1 a c have 1:
    "parse_team plain_builtins (PDict [(''id'', PInt 0), (''name'', PStr ''The MongolZ'')]) = Inr None"
    "parse_tournament plain_builtins (PDict [(''id'', PInt 0), (''name'', PStr ''The MongolZ'')]) =
     Inr None"
    "parse_match plain_builtins [(''id'', PInt 0), (''slug'', PStr ''example-match'')] =
     Inl (ValueError ''Match data must include 'id' field'')"
    by blast+
  from t2 b have 2:
    "parse_team plain_builtins (PDict [(''id'', PInt 736), (''name'', PStr [])]) = Inr None"
    "parse_tournament plain_builtins (PDict [(''id'', PInt 736), (''name'', PStr [])]) = Inr None"
    by blast+
  from a b c 1 2 show ?thesis by blast
qed

text \<open>
  Claim C5.  \<^verbatim>\<open>to_betting_odds_dict\<close> stores, for each side, the implied probability
  \<^verbatim>\<open>1 / coeff\<close> when the coefficient is not zero and \<^verbatim>\<open>None\<close> when it is zero; a
  coefficient of 2 gives 0.5.  The coefficient of the model is never absent: a payload
  without \<^verbatim>\<open>coeff\<close> is parsed to the coefficient 0, whose implied probability is
  \<^verbatim>\<open>None\<close>.  (Floats are idealised as reals.)
\<close>

theorem implied_probability:
  "dict_get (to_betting_odds_dict odds match_id) ''team1_implied_prob'' =
     (if bt_coeff (bo_team_1 odds) = 0 then PNone else PFloat (1 / bt_coeff (bo_team_1 odds)))
   \<and> dict_get (to_betting_odds_dict odds match_id) ''team2_implied_prob'' =
     (if bt_coeff (bo_team_2 odds) = 0 then PNone else PFloat (1 / bt_coeff (bo_team_2 odds)))
   \<and> implied_prob 2 = PFloat 0.5
   \<and> implied_prob 0 = PNone
   \<and> (map_of d ''coeff'' = None \<and> parse_betting_team B (PDict d) = Inr (Some t) \<longrightarrow>
        bt_coeff t = 0 \<and> implied_prob (bt_coeff t) = PNone)"
proof (intro conjI impI)
  show "dict_get (to_betting_odds_dict odds match_id) ''team1_implied_prob'' =
     (if bt_coeff (bo_team_1 odds) = 0 then PNone else PFloat (1 / bt_coeff (bo_team_1 odds)))"
    by (simp add: to_betting_odds_dict_def dict_get_def implied_prob_def Let_def)
  show "dict_get (to_betting_odds_dict odds match_id) ''team2_implied_prob'' =
     (if bt_coeff (bo_team_2 odds) = 0 then PNone else PFloat (1 / bt_coeff (bo_team_2 odds)))"
    by (simp add: to_betting_odds_dict_def dict_get_def implied_prob_def Let_def)
  show "implied_prob 2 = PFloat 0.5" by (simp add: implied_prob_def)
  show "implied_prob 0 = PNone" by (simp add: implied_prob_def)
next
  assume h: "map_of d ''coeff'' = None \<and> parse_betting_team B (PDict d) = Inr (Some t)"
  then have "py_float B (dict_get_default d ''coeff'' (PFloat 0)) = Inr (bt_coeff t)"
    by (simp add: parse_betting_team_numeric)
  with h show z: "bt_coeff t = 0" by (simp add: dict_get_default_def)
  then show "implied_prob (bt_coeff t) = PNone" by (simp add: implied_prob_def)
qed

theorem implied_probability_witness:
  "dict_get (to_betting_odds_dict ex_odds (UUID 1)) ''team1_implied_prob'' = PFloat 0.5 \<and>
   dict_get (to_betting_odds_dict ex_odds (UUID 1)) ''team2_implied_prob'' = PNone \<and>
   map_of ex_betting_team_payload ''coeff'' = None \<and>
   parse_betting_team plain_builtins (PDict ex_betting_team_payload) = Inr (Some ex_betting_team) \<and>
   bt_coeff ex_betting_team = 0 \<and>
   implied_prob (bt_coeff ex_betting_team) = PNone"
proof -
  have a: "map_of ex_betting_team_payload ''coeff'' = None"
    by (simp add: ex_betting_team_payload_def)
  have c: "bt_coeff (bo_team_1 ex_odds) = 2" "bt_coeff (bo_team_2 ex_odds) = 0"
    by (simp_all add: ex_odds_def ex_betting_team_def)
  note t = implied_probability [of ex_odds "UUID 1" ex_betting_team_payload plain_builtins
      ex_betting_team]
  from t c have 1:
    "dict_get (to_betting_odds_dict ex_odds (UUID 1)) ''team1_implied_prob'' = PFloat 0.5"
    "dict_get (to_betting_odds_dict ex_odds (UUID 1)) ''team2_implied_prob'' = PNone"
    by simp_all
  from t a ex_betting_team_parsed have 2:
    "bt_coeff ex_betting_team = 0" "implied_prob (bt_coeff ex_betting_team) = PNone"
    by blast+
  from a 1 2 ex_betting_team_parsed show ?thesis by blast
qed



end
